theory Spec2Isabelle
  imports Complex_Main
begin

section \<open>Data model of the tool registry (models.py, schemas.py)\<close>

text \<open>
  JSON documents (\<^verbatim>\<open>Dict[str, Any]\<close> in the source) are stored and passed on
  without being interpreted. An object keeps its members in order.
\<close>

datatype json =
    JNull
  | JBool bool
  | JNum rat
  | JStr string
  | JArr "json list"
  | JObj "(string \<times> json) list"

text \<open>\<^verbatim>\<open>class ToolStatus(str, enum.Enum)\<close>\<close>

datatype ToolStatus = draft | active | deprecated | retired

text \<open>A \<^verbatim>\<open>datetime\<close> is a point on a linear time axis (microseconds).\<close>

type_synonym datetime = int

text \<open>\<^verbatim>\<open>class Tool(Base)\<close>, table \<^verbatim>\<open>tools\<close>.\<close>

record Tool =
  t_id :: string
  t_slug :: string
  t_display_name :: string
  t_description :: "string option"
  t_created_at :: datetime
  t_updated_at :: datetime

text \<open>\<^verbatim>\<open>class ToolVersion(Base)\<close>, table \<^verbatim>\<open>tool_versions\<close>.\<close>

record ToolVersion =
  v_id :: string
  v_tool_id :: string
  v_version :: string
  v_status :: ToolStatus
  v_input_schema :: "(string \<times> json) list"
  v_output_schema :: "(string \<times> json) list"
  v_endpoint_protocol :: string
  v_endpoint_method :: "string option"
  v_endpoint_url :: "string option"
  v_auth_type :: string
  v_auth_key_name :: "string option"
  v_auth_key_location :: "string option"
  v_cost_per_call_usd :: "string option"
  v_valid_from :: "datetime option"
  v_valid_to :: "datetime option"
  v_created_at :: datetime
  v_updated_at :: datetime

text \<open>\<^verbatim>\<open>class ToolCreate(ToolBase)\<close>: the body of \<^verbatim>\<open>POST /tools\<close>.\<close>

record ToolCreate =
  c_slug :: string
  c_display_name :: string
  c_description :: "string option"

text \<open>
  \<^verbatim>\<open>class ToolVersionCreate(ToolVersionBase)\<close>: the body of
  \<^verbatim>\<open>POST /tools/{tool_id}/versions\<close> as the caller sends it. The two fields with a
  non-\<^verbatim>\<open>None\<close> default in the schema (\<^verbatim>\<open>status\<close>, \<^verbatim>\<open>auth_type\<close>) are
  optional here; \<open>None\<close> is a body that leaves the field out.
\<close>

record ToolVersionCreate =
  p_version :: string
  p_status :: "ToolStatus option"
  p_input_schema :: "(string \<times> json) list"
  p_output_schema :: "(string \<times> json) list"
  p_endpoint_protocol :: string
  p_endpoint_method :: "string option"
  p_endpoint_url :: "string option"
  p_auth_type :: "string option"
  p_auth_key_name :: "string option"
  p_auth_key_location :: "string option"
  p_cost_per_call_usd :: "string option"
  p_valid_from :: "datetime option"
  p_valid_to :: "datetime option"

text \<open>\<^verbatim>\<open>status: ToolStatus = ToolStatus.draft\<close> and \<^verbatim>\<open>auth_type: str = "none"\<close>.\<close>

definition payload_status :: "ToolVersionCreate \<Rightarrow> ToolStatus" where
  "payload_status payload = (case p_status payload of None \<Rightarrow> draft | Some st \<Rightarrow> st)"

definition payload_auth_type :: "ToolVersionCreate \<Rightarrow> string" where
  "payload_auth_type payload = (case p_auth_type payload of None \<Rightarrow> ''none'' | Some a \<Rightarrow> a)"

section \<open>The store and its queries\<close>

text \<open>
  The database session: the rows of the two tables, in storage order. What the handlers
  raise is a value: an \<^verbatim>\<open>HTTPException\<close> with its status code and detail, or one of
  the two exceptions of the database layer that the handlers do not catch.
\<close>

record store =
  tools :: "Tool list"
  tool_versions :: "ToolVersion list"

datatype error =
    HTTPException nat string
  | MultipleResultsFound
  | IntegrityError

text \<open>\<^verbatim>\<open>Query.one_or_none()\<close>: no row, the only row, or an exception for several.\<close>

fun one_or_none :: "'a list \<Rightarrow> error + 'a option" where
  "one_or_none [] = Inr None"
| "one_or_none [x] = Inr (Some x)"
| "one_or_none (x # y # rest) = Inl MultipleResultsFound"

text \<open>\<^verbatim>\<open>Query.first()\<close>\<close>

fun first :: "'a list \<Rightarrow> 'a option" where
  "first [] = None"
| "first (x # rest) = Some x"

text \<open>
  \<^verbatim>\<open>order_by(models.ToolVersion.created_at.desc())\<close>: the rows by decreasing
  \<^verbatim>\<open>created_at\<close>. The query names no second key; rows with equal timestamps are
  kept here in storage order.
\<close>

definition order_by_created_at_desc :: "ToolVersion list \<Rightarrow> ToolVersion list" where
  "order_by_created_at_desc rows = sort_key (\<lambda>v. - v_created_at v) rows"

text \<open>
  The constraints of the schema: both primary keys, the unique \<^verbatim>\<open>slug\<close> column and
  the foreign key \<^verbatim>\<open>tool_versions.tool_id\<close>.
\<close>

definition schema_ok :: "store \<Rightarrow> bool" where
  "schema_ok db \<longleftrightarrow>
     distinct (map t_id (tools db)) \<and>
     distinct (map t_slug (tools db)) \<and>
     distinct (map v_id (tool_versions db)) \<and>
     list_all (\<lambda>v. v_tool_id v \<in> set (map t_id (tools db))) (tool_versions db)"

text \<open>
  \<^verbatim>\<open>db.add(row); db.commit()\<close>: the row is appended, or the commit raises when a
  primary key or the unique slug is taken.
\<close>

definition add_tool :: "Tool \<Rightarrow> store \<Rightarrow> error + store" where
  "add_tool t db =
     (if t_id t \<in> set (map t_id (tools db)) \<or> t_slug t \<in> set (map t_slug (tools db))
      then Inl IntegrityError
      else Inr (db\<lparr>tools := tools db @ [t]\<rparr>))"

definition add_version :: "ToolVersion \<Rightarrow> store \<Rightarrow> error + store" where
  "add_version v db =
     (if v_id v \<in> set (map v_id (tool_versions db))
      then Inl IntegrityError
      else Inr (db\<lparr>tool_versions := tool_versions db @ [v]\<rparr>))"

section \<open>The registry's handlers (tool-registry/app/main.py)\<close>

text \<open>
  A handler that writes takes the store and returns its result with the store afterwards.
  The values the source draws from its surroundings are arguments: \<open>uid\<close> is the
  \<^verbatim>\<open>uuid.uuid4()\<close> of the new row, \<open>now\<close> the reading of \<^verbatim>\<open>datetime.utcnow\<close>.
\<close>

definition create_tool :: "string \<Rightarrow> datetime \<Rightarrow> ToolCreate \<Rightarrow> store \<Rightarrow> (error + Tool) \<times> store" where
  "create_tool uid now tool db =
     (case one_or_none (filter (\<lambda>t. t_slug t = c_slug tool) (tools db)) of
        Inl e \<Rightarrow> (Inl e, db)
      | Inr (Some existing) \<Rightarrow>
          (Inl (HTTPException 400 ''Tool with this slug already exists''), db)
      | Inr None \<Rightarrow>
          (let db_tool = \<lparr>t_id = uid, t_slug = c_slug tool,
                          t_display_name = c_display_name tool,
                          t_description = c_description tool,
                          t_created_at = now, t_updated_at = now\<rparr>
           in case add_tool db_tool db of
                Inl e \<Rightarrow> (Inl e, db)
              | Inr db' \<Rightarrow> (Inr db_tool, db')))"

definition create_tool_version ::
  "string \<Rightarrow> datetime \<Rightarrow> string \<Rightarrow> ToolVersionCreate \<Rightarrow> store \<Rightarrow> (error + ToolVersion) \<times> store" where
  "create_tool_version uid now tool_id payload db =
     (case one_or_none (filter (\<lambda>t. t_id t = tool_id) (tools db)) of
        Inl e \<Rightarrow> (Inl e, db)
      | Inr None \<Rightarrow> (Inl (HTTPException 404 ''Tool not found''), db)
      | Inr (Some tool) \<Rightarrow>
          (let db_version = \<lparr>v_id = uid, v_tool_id = t_id tool,
                             v_version = p_version payload,
                             v_status = payload_status payload,
                             v_input_schema = p_input_schema payload,
                             v_output_schema = p_output_schema payload,
                             v_endpoint_protocol = p_endpoint_protocol payload,
                             v_endpoint_method = p_endpoint_method payload,
                             v_endpoint_url = p_endpoint_url payload,
                             v_auth_type = payload_auth_type payload,
                             v_auth_key_name = p_auth_key_name payload,
                             v_auth_key_location = p_auth_key_location payload,
                             v_cost_per_call_usd = p_cost_per_call_usd payload,
                             v_valid_from = p_valid_from payload,
                             v_valid_to = p_valid_to payload,
                             v_created_at = now, v_updated_at = now\<rparr>
           in case add_version db_version db of
                Inl e \<Rightarrow> (Inl e, db)
              | Inr db' \<Rightarrow> (Inr db_version, db')))"

text \<open>
  \<^verbatim>\<open>list_tool_versions\<close>: no lookup of the tool; the rows of \<^verbatim>\<open>tool_versions\<close>
  with that \<^verbatim>\<open>tool_id\<close>, filtered by status when one is given, newest first.
\<close>

definition list_tool_versions :: "string \<Rightarrow> ToolStatus option \<Rightarrow> store \<Rightarrow> error + ToolVersion list" where
  "list_tool_versions tool_id status db =
     (let q = filter (\<lambda>v. v_tool_id v = tool_id) (tool_versions db);
          q' = (case status of None \<Rightarrow> q | Some st \<Rightarrow> filter (\<lambda>v. v_status v = st) q)
      in Inr (order_by_created_at_desc q'))"

definition get_tool_version :: "string \<Rightarrow> string \<Rightarrow> store \<Rightarrow> error + ToolVersion" where
  "get_tool_version tool_id version_id db =
     (case one_or_none (filter (\<lambda>v. v_tool_id v = tool_id \<and> v_id v = version_id)
                          (tool_versions db)) of
        Inl e \<Rightarrow> Inl e
      | Inr None \<Rightarrow> Inl (HTTPException 404 ''Tool version not found'')
      | Inr (Some version) \<Rightarrow> Inr version)"

text \<open>
  \<^verbatim>\<open>update_tool_version_status\<close>: the row found is written back with the new status
  and \<^verbatim>\<open>updated_at = datetime.utcnow()\<close>; the commit updates the row with its
  primary key.
\<close>

definition update_tool_version_status ::
  "datetime \<Rightarrow> string \<Rightarrow> string \<Rightarrow> ToolStatus \<Rightarrow> store \<Rightarrow> (error + ToolVersion) \<times> store" where
  "update_tool_version_status now tool_id version_id status_update db =
     (case one_or_none (filter (\<lambda>v. v_tool_id v = tool_id \<and> v_id v = version_id)
                          (tool_versions db)) of
        Inl e \<Rightarrow> (Inl e, db)
      | Inr None \<Rightarrow> (Inl (HTTPException 404 ''Tool version not found''), db)
      | Inr (Some version) \<Rightarrow>
          (let version' = version\<lparr>v_status := status_update, v_updated_at := now\<rparr>
           in (Inr version',
               db\<lparr>tool_versions :=
                     map (\<lambda>w. if v_id w = v_id version then version' else w)
                       (tool_versions db)\<rparr>)))"

text \<open>\<^verbatim>\<open>resolve_tool\<close>: the tool of that slug and its latest active version.\<close>

definition resolve_tool :: "string \<Rightarrow> store \<Rightarrow> error + (Tool \<times> ToolVersion)" where
  "resolve_tool slug db =
     (case one_or_none (filter (\<lambda>t. t_slug t = slug) (tools db)) of
        Inl e \<Rightarrow> Inl e
      | Inr None \<Rightarrow> Inl (HTTPException 404 ''Tool not found'')
      | Inr (Some tool) \<Rightarrow>
          (case first (order_by_created_at_desc
                         (filter (\<lambda>v. v_tool_id v = t_id tool \<and> v_status v = active)
                            (tool_versions db))) of
             None \<Rightarrow> Inl (HTTPException 404 ''No active version for this tool'')
           | Some version \<Rightarrow> Inr (tool, version)))"

text \<open>
  The three handlers that write, as requests with the values they draw from their
  surroundings, and the store after a request has been handled.
\<close>

datatype write_request =
    CreateTool string datetime ToolCreate
  | CreateToolVersion string datetime string ToolVersionCreate
  | UpdateToolVersionStatus datetime string string ToolStatus

fun handle :: "write_request \<Rightarrow> store \<Rightarrow> store" where
  "handle (CreateTool uid now tool) db = snd (create_tool uid now tool db)"
| "handle (CreateToolVersion uid now tool_id payload) db =
     snd (create_tool_version uid now tool_id payload db)"
| "handle (UpdateToolVersionStatus now tool_id version_id status_update) db =
     snd (update_tool_version_status now tool_id version_id status_update db)"

section \<open>The gateway (tool-gateway/app/main.py)\<close>

text \<open>\<^verbatim>\<open>class ToolCallRequest(BaseModel)\<close>\<close>

record ToolCallRequest =
  r_slug :: string
  r_input :: "(string \<times> json) list"

text \<open>
  What \<^verbatim>\<open>Response.json()\<close> does with a body: it returns the decoded value, it
  raises a \<^verbatim>\<open>ValueError\<close> (the decoder's \<^verbatim>\<open>JSONDecodeError\<close> is one) when the body
  is not JSON, or it raises \<^verbatim>\<open>RecursionError\<close>, which is not a \<^verbatim>\<open>ValueError\<close>,
  when the body is nested too deeply for the decoder, valid JSON or not.
\<close>

datatype 'j decoded =
    Json 'j
  | RaisesValueError
  | RaisesRecursionError

text \<open>
  An \<^verbatim>\<open>httpx.Response\<close>: its status code, its body as text, and what
  \<^verbatim>\<open>.json()\<close> does on it.
\<close>

record 'j response =
  status_code :: nat
  body_text :: string
  json_of :: "'j decoded"

text \<open>
  The decoded body of a 200 reply of \<^verbatim>\<open>/resolve\<close>, with the shape
  \<^verbatim>\<open>resolve_tool\<close> gives it. \<open>None\<close> is a key that \<^verbatim>\<open>resolved.get\<close> does not
  find; for \<^verbatim>\<open>version\<close> the source goes on with \<^verbatim>\<open>{}\<close> then.
\<close>

record resolved =
  res_tool :: "Tool option"
  res_version :: "ToolVersion option"

text \<open>The request the gateway sends to the tool's endpoint.\<close>

datatype outbound =
    HttpGet string "(string \<times> json) list"
  | HttpPost string "(string \<times> json) list"

fun outbound_url :: "outbound \<Rightarrow> string" where
  "outbound_url (HttpGet url params) = url"
| "outbound_url (HttpPost url body) = url"

text \<open>
  What is outside the gateway: the registry answering
  \<^verbatim>\<open>GET {REGISTRY_BASE_URL}/resolve?slug=...\<close> and the tool's endpoint answering a
  request. \<open>Inl e\<close> is an \<^verbatim>\<open>httpx.RequestError\<close> with message \<open>e\<close>: no response
  was received. The third field is Python's \<^verbatim>\<open>str.upper\<close> on text that is not all
  ASCII, where it follows the Unicode case mappings (the long s becomes \<open>S\<close>).
\<close>

record world =
  registry :: "string \<Rightarrow> string + resolved response"
  endpoint :: "outbound \<Rightarrow> string + json response"
  unicode_upper :: "string \<Rightarrow> string"

text \<open>What the gateway raises without catching it is a value as well.\<close>

datatype gw_error =
    GwHTTPException nat string
  | RequestError string
  | JSONDecodeError
  | RecursionError

text \<open>The dictionary \<^verbatim>\<open>call_tool\<close> returns.\<close>

record call_result =
  out_tool :: "Tool option"
  out_version :: "ToolVersion option"
  tool_status_code :: nat
  result :: json

text \<open>
  \<^verbatim>\<open>str.upper()\<close>: on text that is all ASCII (no byte with the top bit set) the
  letters a to z become A to Z and nothing else changes; on any other text it is the
  world's \<open>unicode_upper\<close>.
\<close>

definition upper_char :: "char \<Rightarrow> char" where
  "upper_char c =
     (case map_of (zip ''abcdefghijklmnopqrstuvwxyz'' ''ABCDEFGHIJKLMNOPQRSTUVWXYZ'') c of
        None \<Rightarrow> c
      | Some u \<Rightarrow> u)"

definition is_ascii :: "string \<Rightarrow> bool" where
  "is_ascii s \<longleftrightarrow> list_all (\<lambda>c. \<not> digit7 c) s"

definition upper :: "world \<Rightarrow> string \<Rightarrow> string" where
  "upper w s = (if is_ascii s then map upper_char s else unicode_upper w s)"

text \<open>\<^verbatim>\<open>str.startswith\<close>\<close>

definition startswith :: "string \<Rightarrow> string \<Rightarrow> bool" where
  "startswith s p \<longleftrightarrow> take (length p) s = p"

text \<open>
  Step 1 of \<^verbatim>\<open>call_tool\<close>: the query to the registry. A reply other than 200 is
  passed on with its status code; a transport failure here and what \<^verbatim>\<open>r.json()\<close>
  raises on a 200 body are not caught.
\<close>

definition resolve_step :: "world \<Rightarrow> ToolCallRequest \<Rightarrow> gw_error + resolved" where
  "resolve_step w req =
     (case registry w (r_slug req) of
        Inl e \<Rightarrow> Inl (RequestError e)
      | Inr r \<Rightarrow>
          if status_code r \<noteq> 200
          then Inl (GwHTTPException (status_code r) (''Failed to resolve tool: '' @ body_text r))
          else (case json_of r of
                  Json resolved \<Rightarrow> Inr resolved
                | RaisesValueError \<Rightarrow> Inl JSONDecodeError
                | RaisesRecursionError \<Rightarrow> Inl RecursionError))"

text \<open>
  \<^verbatim>\<open>(version.get("endpoint_method") or "POST").upper()\<close>: \<^verbatim>\<open>None\<close> and the empty
  string are both false.
\<close>

definition endpoint_method_of :: "world \<Rightarrow> string option \<Rightarrow> string" where
  "endpoint_method_of w m =
     upper w (case m of None \<Rightarrow> ''POST'' | Some x \<Rightarrow> if x = [] then ''POST'' else x)"

text \<open>
  \<^verbatim>\<open>if not endpoint_url.startswith("http"): endpoint_url = f"{protocol}://{endpoint_url}"\<close>
\<close>

definition target_url :: "string \<Rightarrow> string \<Rightarrow> string" where
  "target_url protocol endpoint_url =
     (if \<not> startswith endpoint_url ''http'' then protocol @ ''://'' @ endpoint_url
      else endpoint_url)"

text \<open>
  Step 2, the \<^verbatim>\<open>try\<close> block: the response received, or the exception raised, with
  the requests that were sent.
\<close>

definition dispatch ::
  "world \<Rightarrow> string \<Rightarrow> string \<Rightarrow> (string \<times> json) list \<Rightarrow> (gw_error + json response) \<times> outbound list" where
  "dispatch w endpoint_method endpoint_url inp =
     (if endpoint_method = ''GET'' then
        (case endpoint w (HttpGet endpoint_url inp) of
           Inl e \<Rightarrow> (Inl (GwHTTPException 502 (''Error calling tool endpoint: '' @ e)),
                     [HttpGet endpoint_url inp])
         | Inr tool_resp \<Rightarrow> (Inr tool_resp, [HttpGet endpoint_url inp]))
      else if endpoint_method = ''POST'' then
        (case endpoint w (HttpPost endpoint_url inp) of
           Inl e \<Rightarrow> (Inl (GwHTTPException 502 (''Error calling tool endpoint: '' @ e)),
                     [HttpPost endpoint_url inp])
         | Inr tool_resp \<Rightarrow> (Inr tool_resp, [HttpPost endpoint_url inp]))
      else (Inl (GwHTTPException 500 (''Unsupported endpoint_method: '' @ endpoint_method)), []))"

text \<open>
  \<^verbatim>\<open>try: tool_data = tool_resp.json() except ValueError: tool_data = {"raw": tool_resp.text}\<close>:
  only a \<^verbatim>\<open>ValueError\<close> is caught; any other exception of \<^verbatim>\<open>.json()\<close> leaves the
  handler.
\<close>

definition tool_data :: "json response \<Rightarrow> gw_error + json" where
  "tool_data tool_resp =
     (case json_of tool_resp of
        Json j \<Rightarrow> Inr j
      | RaisesValueError \<Rightarrow> Inr (JObj [(''raw'', JStr (body_text tool_resp))])
      | RaisesRecursionError \<Rightarrow> Inl RecursionError)"

text \<open>
  \<^verbatim>\<open>call_tool\<close>: what the handler returns or raises, and the requests it sent to the
  tool's endpoint, in order.
\<close>

definition call_tool :: "world \<Rightarrow> ToolCallRequest \<Rightarrow> (gw_error + call_result) \<times> outbound list" where
  "call_tool w req =
     (case resolve_step w req of
        Inl e \<Rightarrow> (Inl e, [])
      | Inr resolved \<Rightarrow>
          (let version = res_version resolved;
               endpoint_url = (case version of None \<Rightarrow> None | Some v \<Rightarrow> v_endpoint_url v);
               endpoint_method =
                 endpoint_method_of w
                   (case version of None \<Rightarrow> None | Some v \<Rightarrow> v_endpoint_method v);
               protocol = (case version of None \<Rightarrow> ''http'' | Some v \<Rightarrow> v_endpoint_protocol v)
           in case endpoint_url of
                None \<Rightarrow> (Inl (GwHTTPException 500 ''Tool endpoint_url is not set''), [])
              | Some u \<Rightarrow>
                  if u = [] then (Inl (GwHTTPException 500 ''Tool endpoint_url is not set''), [])
                  else (case dispatch w endpoint_method (target_url protocol u) (r_input req) of
                          (Inl e, sent) \<Rightarrow> (Inl e, sent)
                        | (Inr tool_resp, sent) \<Rightarrow>
                            (case tool_data tool_resp of
                               Inl e \<Rightarrow> (Inl e, sent)
                             | Inr data \<Rightarrow>
                                 (Inr \<lparr>out_tool = res_tool resolved, out_version = version,
                                       tool_status_code = status_code tool_resp,
                                       result = data\<rparr>, sent)))))"

text \<open>
  The reading of the specification's words "already carries a scheme prefix" that the
  gateway's test is compared with: the URL begins with a scheme name (letters, digits,
  \<open>+\<close>, \<open>-\<close>, \<open>.\<close>) followed by \<open>://\<close>.
\<close>

definition scheme_char :: "char \<Rightarrow> bool" where
  "scheme_char c \<longleftrightarrow>
     c \<in> set ''abcdefghijklmnopqrstuvwxyzABCDEFGHIJKLMNOPQRSTUVWXYZ0123456789+-.''"

definition carries_scheme_prefix :: "string \<Rightarrow> bool" where
  "carries_scheme_prefix u \<longleftrightarrow>
     takeWhile scheme_char u \<noteq> [] \<and> startswith (dropWhile scheme_char u) ''://''"

section \<open>Sample data\<close>

definition demo_tool :: Tool where
  "demo_tool = \<lparr>t_id = ''t1'', t_slug = ''weather-basic'', t_display_name = ''Weather'',
                 t_description = None, t_created_at = 100, t_updated_at = 100\<rparr>"

definition demo_version :: ToolVersion where
  "demo_version = \<lparr>v_id = ''v1'', v_tool_id = ''t1'', v_version = ''1.0.0'',
                    v_status = active, v_input_schema = [], v_output_schema = [],
                    v_endpoint_protocol = ''http'', v_endpoint_method = Some ''GET'',
                    v_endpoint_url = Some ''localhost:9005/weather'', v_auth_type = ''none'',
                    v_auth_key_name = None, v_auth_key_location = None,
                    v_cost_per_call_usd = None, v_valid_from = None, v_valid_to = None,
                    v_created_at = 200, v_updated_at = 200\<rparr>"

definition demo_store :: store where
  "demo_store =
     \<lparr>tools = [demo_tool],
      tool_versions =
        [demo_version,
         demo_version\<lparr>v_id := ''v2'', v_version := ''1.1.0'', v_created_at := 300,
                      v_updated_at := 300\<rparr>,
         demo_version\<lparr>v_id := ''v3'', v_version := ''0.9.0'', v_status := retired,
                      v_created_at := 150, v_updated_at := 400\<rparr>]\<rparr>"

definition demo_create :: ToolCreate where
  "demo_create = \<lparr>c_slug = ''pollen-index'', c_display_name = ''Pollen'',
                   c_description = None\<rparr>"

definition demo_payload :: ToolVersionCreate where
  "demo_payload = \<lparr>p_version = ''2.0.0'', p_status = Some active, p_input_schema = [],
                    p_output_schema = [], p_endpoint_protocol = ''http'',
                    p_endpoint_method = Some ''GET'',
                    p_endpoint_url = Some ''http://localhost:9005/weather'',
                    p_auth_type = Some ''none'', p_auth_key_name = None,
                    p_auth_key_location = None, p_cost_per_call_usd = None,
                    p_valid_from = None, p_valid_to = None\<rparr>"

text \<open>
  A registry that resolves every slug to the given version, and an endpoint that answers
  a GET with a 500 whose body is not JSON and refuses the connection of a POST. The
  sample methods are ASCII, so \<open>unicode_upper\<close> is never asked.
\<close>

definition demo_world :: "ToolVersion \<Rightarrow> world" where
  "demo_world v =
     \<lparr>registry = (\<lambda>slug. Inr \<lparr>status_code = 200, body_text = [],
                               json_of = Json \<lparr>res_tool = Some demo_tool,
                                              res_version = Some v\<rparr>\<rparr>),
      endpoint = (\<lambda>rq. case rq of
                     HttpGet url params \<Rightarrow>
                       Inr \<lparr>status_code = 500, body_text = ''boom'',
                            json_of = RaisesValueError\<rparr>
                   | HttpPost url body \<Rightarrow> Inl ''connection refused''),
      unicode_upper = (\<lambda>s. s)\<rparr>"

text \<open>
  The same registry, and an endpoint that answers every request with a 200 whose body
  is a thousand opening brackets: \<^verbatim>\<open>.json()\<close> raises \<^verbatim>\<open>RecursionError\<close> on it.
\<close>

definition nested_body_world :: world where
  "nested_body_world =
     (demo_world demo_version)
       \<lparr>endpoint := (\<lambda>rq. Inr \<lparr>status_code = 200, body_text = replicate 1000 (CHR ''[''),
                                json_of = RaisesRecursionError\<rparr>)\<rparr>"

definition demo_req :: ToolCallRequest where
  "demo_req = \<lparr>r_slug = ''weather-basic'', r_input = [(''city'', JStr ''Oslo'')]\<rparr>"

section \<open>Queries on a store that meets the schema\<close>

lemma filter_key_distinct:
  "distinct (map f xs) \<Longrightarrow> x \<in> set xs \<Longrightarrow> filter (\<lambda>y. f y = f x) xs = [x]"
proof (induction xs)
  case Nil
  then show ?case by simp
next
  case (Cons a xs)
  show ?case
  proof (cases "a = x")
    case True
    with Cons.prems have "f x \<notin> f ` set xs" by simp
    then have "\<forall>y\<in>set xs. f y \<noteq> f x" by (metis imageI)
    then have "filter (\<lambda>y. f y = f x) xs = []" by (simp add: filter_empty_conv)
    with True show ?thesis by simp
  next
    case False
    with Cons.prems have "x \<in> set xs" "f a \<noteq> f x" by auto
    with Cons show ?thesis by simp
  qed
qed

lemma filter_none: "\<not> (\<exists>x\<in>set xs. P x) \<Longrightarrow> filter P xs = []"
  by (simp add: filter_empty_conv)

lemma version_row_unique:
  assumes "distinct (map v_id rows)" and "v \<in> set rows"
  shows "filter (\<lambda>w. v_tool_id w = v_tool_id v \<and> v_id w = v_id v) rows = [v]"
proof -
  have "filter (\<lambda>w. v_id w = v_id v) rows = [v]"
    using assms by (rule filter_key_distinct)
  moreover have "filter (\<lambda>w. v_tool_id w = v_tool_id v \<and> v_id w = v_id v) rows =
      filter (\<lambda>w. v_tool_id w = v_tool_id v) (filter (\<lambda>w. v_id w = v_id v) rows)"
    by (simp add: conj_commute)
  ultimately show ?thesis by simp
qed

lemma schema_ok_empty: "schema_ok \<lparr>tools = [], tool_versions = []\<rparr>"
  by (simp add: schema_ok_def)

lemma one_or_none_SomeD:
  assumes "one_or_none (filter P xs) = Inr (Some x)"
  shows "x \<in> set xs \<and> P x \<and> filter P xs = [x]"
proof -
  from assms have eq: "filter P xs = [x]"
    by (cases "filter P xs" rule: one_or_none.cases) auto
  then have "set (filter P xs) = {x}" by simp
  then have "x \<in> set xs \<and> P x" by auto
  with eq show ?thesis by simp
qed

lemma create_tool_unchanged_on_error:
  "create_tool uid now tool db = (Inl e, db') \<Longrightarrow> db' = db"
  by (auto simp: create_tool_def Let_def split: sum.splits option.splits)

lemma create_tool_keeps_schema:
  assumes "schema_ok db"
  shows "schema_ok (snd (create_tool uid now tool db))"
  using assms
  by (auto simp: create_tool_def add_tool_def schema_ok_def Let_def list_all_iff
           split: sum.splits option.splits)

lemma create_tool_version_keeps_schema:
  assumes "schema_ok db"
  shows "schema_ok (snd (create_tool_version uid now tool_id payload db))"
proof (cases "one_or_none (filter (\<lambda>t. t_id t = tool_id) (tools db))")
  case (Inl e)
  with assms show ?thesis by (simp add: create_tool_version_def)
next
  case (Inr found)
  show ?thesis
  proof (cases found)
    case None
    with Inr assms show ?thesis by (simp add: create_tool_version_def)
  next
    case (Some tool)
    with Inr have "tool \<in> set (tools db)"
      by (auto dest: one_or_none_SomeD)
    with Inr Some assms show ?thesis
      by (auto simp: create_tool_version_def add_version_def schema_ok_def Let_def list_all_iff)
  qed
qed

lemma map_update_ids:
  "v_id v' = v_id v \<Longrightarrow>
   map v_id (map (\<lambda>w. if v_id w = v_id v then v' else w) rows) = map v_id rows"
  by (induction rows) auto

lemma update_keeps_schema:
  assumes "schema_ok db"
  shows "schema_ok (snd (update_tool_version_status now tool_id version_id st db))"
proof (cases "one_or_none (filter (\<lambda>v. v_tool_id v = tool_id \<and> v_id v = version_id) (tool_versions db))")
  case (Inl e)
  with assms show ?thesis by (simp add: update_tool_version_status_def)
next
  case (Inr found)
  show ?thesis
  proof (cases found)
    case None
    with Inr assms show ?thesis by (simp add: update_tool_version_status_def)
  next
    case (Some v)
    with Inr have v: "v \<in> set (tool_versions db)" "v_tool_id v = tool_id"
      by (auto dest: one_or_none_SomeD)
    let ?v' = "v\<lparr>v_status := st, v_updated_at := now\<rparr>"
    have ids: "map v_id (map (\<lambda>w. if v_id w = v_id v then ?v' else w) (tool_versions db)) =
        map v_id (tool_versions db)"
      by (rule map_update_ids) simp
    from Inr Some have "snd (update_tool_version_status now tool_id version_id st db) =
        db\<lparr>tool_versions := map (\<lambda>w. if v_id w = v_id v then ?v' else w) (tool_versions db)\<rparr>"
      by (simp add: update_tool_version_status_def Let_def)
    moreover have "distinct (map v_id (map (\<lambda>w. if v_id w = v_id v then ?v' else w) (tool_versions db)))"
      unfolding ids using assms by (simp add: schema_ok_def)
    moreover have "list_all (\<lambda>w. v_tool_id w \<in> set (map t_id (tools db)))
        (map (\<lambda>w. if v_id w = v_id v then ?v' else w) (tool_versions db))"
      using assms v by (auto simp: schema_ok_def list_all_iff)
    moreover from assms have "distinct (map t_id (tools db))" "distinct (map t_slug (tools db))"
      by (simp_all add: schema_ok_def)
    ultimately have "schema_ok (snd (update_tool_version_status now tool_id version_id st db))"
      by (simp add: schema_ok_def del: map_map)
    then show ?thesis .
  qed
qed

lemma handle_keeps_schema: "schema_ok db \<Longrightarrow> schema_ok (handle rq db)"
  by (cases rq)
     (simp_all add: create_tool_keeps_schema create_tool_version_keeps_schema update_keeps_schema)

section \<open>Resolution\<close>

lemma first_order_by:
  assumes "rows \<noteq> []"
  shows "\<exists>v. first (order_by_created_at_desc rows) = Some v \<and> v \<in> set rows \<and>
             (\<forall>w\<in>set rows. v_created_at w \<le> v_created_at v)"
proof -
  let ?s = "order_by_created_at_desc rows"
  have set_s: "set ?s = set rows" by (simp add: order_by_created_at_desc_def)
  with assms have "?s \<noteq> []" by (metis set_empty)
  then obtain v rest where s: "?s = v # rest" by (cases ?s) auto
  have "sorted (map (\<lambda>v. - v_created_at v) ?s)"
    by (simp add: order_by_created_at_desc_def)
  with s have "\<forall>w\<in>set rest. v_created_at w \<le> v_created_at v" by simp
  with s set_s have "\<forall>w\<in>set rows. v_created_at w \<le> v_created_at v" by auto
  moreover from s set_s have "v \<in> set rows" by auto
  ultimately show ?thesis using s by simp
qed

lemma order_by_empty: "order_by_created_at_desc [] = []"
  by (simp add: order_by_created_at_desc_def)

text \<open>
  Claim C1. In a store that meets the schema's constraints, \<^verbatim>\<open>resolve_tool\<close> answers
  404 "Tool not found" when no tool has the slug; for the tool of that slug it answers
  404 "No active version for this tool" when none of the tool's versions is active, and
  otherwise returns the tool with one of its active versions whose \<^verbatim>\<open>created_at\<close> no
  other active version of the tool exceeds.
\<close>

theorem resolve_tool_spec:
  assumes ok: "schema_ok db"
  shows "(\<not> (\<exists>t\<in>set (tools db). t_slug t = slug) \<longrightarrow>
            resolve_tool slug db = Inl (HTTPException 404 ''Tool not found''))
       \<and> (\<forall>t\<in>set (tools db). t_slug t = slug \<longrightarrow>
            (if \<exists>v\<in>set (tool_versions db). v_tool_id v = t_id t \<and> v_status v = active
             then \<exists>v\<in>set (tool_versions db).
                      resolve_tool slug db = Inr (t, v) \<and>
                      v_tool_id v = t_id t \<and> v_status v = active \<and>
                      (\<forall>w\<in>set (tool_versions db).
                          v_tool_id w = t_id t \<and> v_status w = active \<longrightarrow>
                          v_created_at w \<le> v_created_at v)
             else resolve_tool slug db = Inl (HTTPException 404 ''No active version for this tool'')))"
proof (intro conjI impI ballI)
  assume "\<not> (\<exists>t\<in>set (tools db). t_slug t = slug)"
  then have "filter (\<lambda>t. t_slug t = slug) (tools db) = []" by (rule filter_none)
  then show "resolve_tool slug db = Inl (HTTPException 404 ''Tool not found'')"
    by (simp add: resolve_tool_def)
next
  fix t assume t: "t \<in> set (tools db)" and sl: "t_slug t = slug"
  let ?rows = "filter (\<lambda>v. v_tool_id v = t_id t \<and> v_status v = active) (tool_versions db)"
  from ok have "distinct (map t_slug (tools db))" by (simp add: schema_ok_def)
  from this t have "filter (\<lambda>y. t_slug y = t_slug t) (tools db) = [t]"
    by (rule filter_key_distinct)
  with sl have one: "one_or_none (filter (\<lambda>t. t_slug t = slug) (tools db)) = Inr (Some t)"
    by simp
  show "if \<exists>v\<in>set (tool_versions db). v_tool_id v = t_id t \<and> v_status v = active
        then \<exists>v\<in>set (tool_versions db).
                 resolve_tool slug db = Inr (t, v) \<and>
                 v_tool_id v = t_id t \<and> v_status v = active \<and>
                 (\<forall>w\<in>set (tool_versions db).
                     v_tool_id w = t_id t \<and> v_status w = active \<longrightarrow>
                     v_created_at w \<le> v_created_at v)
        else resolve_tool slug db = Inl (HTTPException 404 ''No active version for this tool'')"
  proof (cases "\<exists>v\<in>set (tool_versions db). v_tool_id v = t_id t \<and> v_status v = active")
    case True
    then have "?rows \<noteq> []" by (simp add: filter_empty_conv)
    from first_order_by [OF this] obtain v where
      v: "first (order_by_created_at_desc ?rows) = Some v" "v \<in> set ?rows"
         "\<forall>w\<in>set ?rows. v_created_at w \<le> v_created_at v" by blast
    from one v(1) have "resolve_tool slug db = Inr (t, v)" by (simp add: resolve_tool_def)
    with v(2,3) True show ?thesis by auto
  next
    case False
    then have "?rows = []" by (simp add: filter_empty_conv)
    with one False show ?thesis by (simp add: resolve_tool_def order_by_empty)
  qed
qed

section \<open>The sample store meets the schema\<close>

lemma demo_store_ok: "schema_ok demo_store"
  by (simp add: schema_ok_def demo_store_def demo_tool_def demo_version_def)

theorem resolve_tool_spec_witness:
  "schema_ok demo_store \<and>
   resolve_tool ''pollen-index'' demo_store = Inl (HTTPException 404 ''Tool not found'') \<and>
   (\<exists>v\<in>set (tool_versions demo_store).
       resolve_tool ''weather-basic'' demo_store = Inr (demo_tool, v) \<and>
       v_status v = active \<and> 300 \<le> v_created_at v)"
proof -
  have a: "\<not> (\<exists>t\<in>set (tools demo_store). t_slug t = ''pollen-index'')"
    by (simp add: demo_store_def demo_tool_def)
  have b: "demo_tool \<in> set (tools demo_store)" "t_slug demo_tool = ''weather-basic''"
    by (simp_all add: demo_store_def demo_tool_def)
  let ?v2 = "demo_version\<lparr>v_id := ''v2'', v_version := ''1.1.0'', v_created_at := 300,
                      v_updated_at := 300\<rparr>"
  have c: "?v2 \<in> set (tool_versions demo_store)" "v_tool_id ?v2 = t_id demo_tool"
    "v_status ?v2 = active" "v_created_at ?v2 = 300"
    by (simp_all add: demo_store_def demo_tool_def demo_version_def)
  then have d: "\<exists>v\<in>set (tool_versions demo_store). v_tool_id v = t_id demo_tool \<and> v_status v = active"
    by blast
  note spec = resolve_tool_spec [OF demo_store_ok]
  from spec [of "''pollen-index''"] a
  have "resolve_tool ''pollen-index'' demo_store = Inl (HTTPException 404 ''Tool not found'')"
    by blast
  moreover from spec [of "''weather-basic''"] b d
  obtain v where v: "v \<in> set (tool_versions demo_store)"
      "resolve_tool ''weather-basic'' demo_store = Inr (demo_tool, v)" "v_status v = active"
      "\<forall>w\<in>set (tool_versions demo_store).
          v_tool_id w = t_id demo_tool \<and> v_status w = active \<longrightarrow> v_created_at w \<le> v_created_at v"
    by (metis (no_types, lifting))
  from v(4) c have "300 \<le> v_created_at v" by metis
  ultimately show ?thesis using demo_store_ok v by blast
qed

section \<open>Creating tools and listing versions\<close>



text \<open>
  Claim C10. For a \<^verbatim>\<open>tool_id\<close> that no tool of the store has,
  \<^verbatim>\<open>list_tool_versions\<close> returns the empty list, with or without a status filter,
  while \<^verbatim>\<open>create_tool_version\<close> answers 404 "Tool not found" and writes nothing.
\<close>

theorem list_tool_versions_unknown_tool:
  assumes ok: "schema_ok db" and unknown: "tool_id \<notin> set (map t_id (tools db))"
  shows "list_tool_versions tool_id status db = Inr []
       \<and> create_tool_version uid now tool_id payload db =
           (Inl (HTTPException 404 ''Tool not found''), db)"
proof -
  from ok unknown have "\<not> (\<exists>v\<in>set (tool_versions db). v_tool_id v = tool_id)"
    by (auto simp: schema_ok_def list_all_iff)
  then have "filter (\<lambda>v. v_tool_id v = tool_id) (tool_versions db) = []"
    by (rule filter_none)
  then have "list_tool_versions tool_id status db = Inr []"
    by (simp add: list_tool_versions_def order_by_empty split: option.split)
  moreover from unknown have "\<not> (\<exists>t\<in>set (tools db). t_id t = tool_id)" by auto
  then have "filter (\<lambda>t. t_id t = tool_id) (tools db) = []" by (rule filter_none)
  then have "create_tool_version uid now tool_id payload db =
      (Inl (HTTPException 404 ''Tool not found''), db)"
    by (simp add: create_tool_version_def)
  ultimately show ?thesis by simp
qed

theorem list_tool_versions_unknown_tool_witness:
  "schema_ok demo_store \<and> ''t9'' \<notin> set (map t_id (tools demo_store)) \<and>
   list_tool_versions ''t9'' None demo_store = Inr [] \<and>
   create_tool_version ''v9'' 500 ''t9'' demo_payload demo_store =
     (Inl (HTTPException 404 ''Tool not found''), demo_store)"
proof -
  have unknown: "''t9'' \<notin> set (map t_id (tools demo_store))"
    by (simp add: demo_store_def demo_tool_def)
  from list_tool_versions_unknown_tool [OF demo_store_ok unknown] unknown demo_store_ok
  show ?thesis by simp
qed

section \<open>Updating a version's status\<close>

lemma updated_row_unique:
  assumes d: "distinct (map v_id rows)" and v: "v \<in> set rows"
    and same: "v_id v' = v_id v" "v_tool_id v' = v_tool_id v"
  shows "filter (\<lambda>w. v_tool_id w = v_tool_id v \<and> v_id w = v_id v)
           (map (\<lambda>w. if v_id w = v_id v then v' else w) rows) = [v']"
proof -
  let ?rows' = "map (\<lambda>w. if v_id w = v_id v then v' else w) rows"
  have ids: "map v_id ?rows' = map v_id rows" using same(1) by (rule map_update_ids)
  from d have d': "distinct (map v_id ?rows')" by (simp only: ids)
  from v have "v' \<in> set ?rows'" by force
  from version_row_unique [OF d' this] same show ?thesis by simp
qed

text \<open>
  Claim C4. For every new status, whatever the version's status is:
  when a version with that id exists under that tool, \<^verbatim>\<open>update_tool_version_status\<close>
  returns it with the new status and \<^verbatim>\<open>updated_at\<close> set to the clock's reading, and
  \<^verbatim>\<open>get_tool_version\<close> on the store afterwards reads the same row; when none exists it
  answers 404 "Tool version not found" and leaves the store as it was. So the call fails
  exactly when no such version exists.
\<close>

theorem update_tool_version_status_spec:
  assumes ok: "schema_ok db"
  shows "if \<exists>v\<in>set (tool_versions db). v_tool_id v = tool_id \<and> v_id v = version_id
         then \<exists>v\<in>set (tool_versions db). v_tool_id v = tool_id \<and> v_id v = version_id \<and>
                fst (update_tool_version_status now tool_id version_id st db) =
                  Inr (v\<lparr>v_status := st, v_updated_at := now\<rparr>) \<and>
                get_tool_version tool_id version_id
                  (snd (update_tool_version_status now tool_id version_id st db)) =
                  Inr (v\<lparr>v_status := st, v_updated_at := now\<rparr>)
         else update_tool_version_status now tool_id version_id st db =
                (Inl (HTTPException 404 ''Tool version not found''), db)"
proof (cases "\<exists>v\<in>set (tool_versions db). v_tool_id v = tool_id \<and> v_id v = version_id")
  case False
  then have "filter (\<lambda>v. v_tool_id v = tool_id \<and> v_id v = version_id) (tool_versions db) = []"
    by (rule filter_none)
  with False show ?thesis by (simp add: update_tool_version_status_def)
next
  case True
  then obtain v where v: "v \<in> set (tool_versions db)" "v_tool_id v = tool_id"
    "v_id v = version_id" by blast
  let ?v' = "v\<lparr>v_status := st, v_updated_at := now\<rparr>"
  let ?rows' = "map (\<lambda>w. if v_id w = v_id v then ?v' else w) (tool_versions db)"
  from ok have d: "distinct (map v_id (tool_versions db))" by (simp add: schema_ok_def)
  from version_row_unique [OF d v(1)] v(2,3)
  have found: "filter (\<lambda>w. v_tool_id w = tool_id \<and> v_id w = version_id) (tool_versions db) = [v]"
    by simp
  then have upd: "update_tool_version_status now tool_id version_id st db =
      (Inr ?v', db\<lparr>tool_versions := ?rows'\<rparr>)"
    by (simp add: update_tool_version_status_def Let_def)
  have "filter (\<lambda>w. v_tool_id w = v_tool_id v \<and> v_id w = v_id v) ?rows' = [?v']"
    using d v(1) by (rule updated_row_unique) simp_all
  with v(2,3) have "get_tool_version tool_id version_id (db\<lparr>tool_versions := ?rows'\<rparr>) = Inr ?v'"
    by (simp add: get_tool_version_def)
  with upd v True show ?thesis by auto
qed

theorem update_tool_version_status_spec_witness:
  "schema_ok demo_store \<and>
   get_tool_version ''t1'' ''v3'' demo_store =
     Inr (demo_version\<lparr>v_id := ''v3'', v_version := ''0.9.0'', v_status := retired,
                       v_created_at := 150, v_updated_at := 400\<rparr>) \<and>
   get_tool_version ''t1'' ''v3''
     (snd (update_tool_version_status 700 ''t1'' ''v3'' active demo_store)) =
     Inr (demo_version\<lparr>v_id := ''v3'', v_version := ''0.9.0'', v_status := active,
                       v_created_at := 150, v_updated_at := 700\<rparr>) \<and>
   update_tool_version_status 700 ''t1'' ''v7'' active demo_store =
     (Inl (HTTPException 404 ''Tool version not found''), demo_store)"
proof -
  have before: "get_tool_version ''t1'' ''v3'' demo_store =
     Inr (demo_version\<lparr>v_id := ''v3'', v_version := ''0.9.0'', v_status := retired,
                       v_created_at := 150, v_updated_at := 400\<rparr>)"
    by (simp add: get_tool_version_def demo_store_def demo_version_def)
  have "\<exists>v\<in>set (tool_versions demo_store). v_tool_id v = ''t1'' \<and> v_id v = ''v3''"
    by (simp add: demo_store_def demo_version_def)
  with update_tool_version_status_spec [OF demo_store_ok, of "''t1''" "''v3''" 700 active]
  obtain v where v: "v \<in> set (tool_versions demo_store)" "v_tool_id v = ''t1''" "v_id v = ''v3''"
    "get_tool_version ''t1'' ''v3''
       (snd (update_tool_version_status 700 ''t1'' ''v3'' active demo_store)) =
     Inr (v\<lparr>v_status := active, v_updated_at := 700\<rparr>)"
    by auto
  from v(1,3) have "v = demo_version\<lparr>v_id := ''v3'', v_version := ''0.9.0'', v_status := retired,
                       v_created_at := 150, v_updated_at := 400\<rparr>"
    by (auto simp: demo_store_def demo_version_def)
  with v(4) have after: "get_tool_version ''t1'' ''v3''
     (snd (update_tool_version_status 700 ''t1'' ''v3'' active demo_store)) =
     Inr (demo_version\<lparr>v_id := ''v3'', v_version := ''0.9.0'', v_status := active,
                       v_created_at := 150, v_updated_at := 700\<rparr>)"
    by simp
  have "\<not> (\<exists>v\<in>set (tool_versions demo_store). v_tool_id v = ''t1'' \<and> v_id v = ''v7'')"
    by (simp add: demo_store_def demo_version_def)
  with update_tool_version_status_spec [OF demo_store_ok, of "''t1''" "''v7''" 700 active]
  have "update_tool_version_status 700 ''t1'' ''v7'' active demo_store =
     (Inl (HTTPException 404 ''Tool version not found''), demo_store)"
    by simp
  with before after demo_store_ok show ?thesis by simp
qed

section \<open>The status of a new version\<close>

lemma get_tool_version_row:
  assumes "schema_ok db" and "v \<in> set (tool_versions db)"
  shows "get_tool_version (v_tool_id v) (v_id v) db = Inr v"
proof -
  from assms(1) have "distinct (map v_id (tool_versions db))" by (simp add: schema_ok_def)
  from version_row_unique [OF this assms(2)] show ?thesis
    by (simp add: get_tool_version_def)
qed

lemma create_tool_versions_same:
  "tool_versions (snd (create_tool uid now tool db)) = tool_versions db"
  by (auto simp: create_tool_def add_tool_def Let_def split: sum.splits option.splits)

lemma create_tool_version_keeps_rows:
  "v \<in> set (tool_versions db) \<Longrightarrow>
   v \<in> set (tool_versions (snd (create_tool_version uid now tool_id payload db)))"
  by (auto simp: create_tool_version_def add_version_def Let_def split: sum.splits option.splits)

lemma same_id_same_row:
  assumes "distinct (map v_id rows)" "x \<in> set rows" "v \<in> set rows" "v_id x = v_id v"
  shows "x = v"
proof -
  from assms(1) have "inj_on v_id (set rows)" by (simp add: distinct_map)
  with assms(2-4) show ?thesis by (auto dest: inj_onD)
qed

lemma update_keeps_other_rows:
  assumes ok: "schema_ok db" and v: "v \<in> set (tool_versions db)"
    and other: "tool_id \<noteq> v_tool_id v \<or> version_id \<noteq> v_id v"
  shows "v \<in> set (tool_versions (snd (update_tool_version_status now tool_id version_id st db)))"
proof (cases "one_or_none (filter (\<lambda>w. v_tool_id w = tool_id \<and> v_id w = version_id) (tool_versions db))")
  case (Inl e)
  with v show ?thesis by (simp add: update_tool_version_status_def)
next
  case (Inr found)
  show ?thesis
  proof (cases found)
    case None
    with Inr v show ?thesis by (simp add: update_tool_version_status_def)
  next
    case (Some x)
    with Inr have x: "x \<in> set (tool_versions db)" "v_tool_id x = tool_id" "v_id x = version_id"
      by (auto dest: one_or_none_SomeD)
    from ok have d: "distinct (map v_id (tool_versions db))" by (simp add: schema_ok_def)
    have "v_id v \<noteq> v_id x"
    proof
      assume "v_id v = v_id x"
      then have "x = v" using same_id_same_row [OF d x(1) v] by simp
      with x other show False by simp
    qed
    with v have "v \<in> set (map (\<lambda>w. if v_id w = v_id x then x\<lparr>v_status := st, v_updated_at := now\<rparr> else w)
        (tool_versions db))"
      by force
    with Inr Some show ?thesis by (simp add: update_tool_version_status_def Let_def)
  qed
qed

lemma handle_keeps_row:
  assumes ok: "schema_ok db" and v: "v \<in> set (tool_versions db)"
    and other: "\<forall>now st. rq \<noteq> UpdateToolVersionStatus now (v_tool_id v) (v_id v) st"
  shows "v \<in> set (tool_versions (handle rq db))"
proof (cases rq)
  case (CreateTool uid now tool)
  with v show ?thesis by (simp add: create_tool_versions_same)
next
  case (CreateToolVersion uid now tool_id payload)
  with v show ?thesis by (simp add: create_tool_version_keeps_rows)
next
  case (UpdateToolVersionStatus now tool_id version_id st)
  with other have "tool_id \<noteq> v_tool_id v \<or> version_id \<noteq> v_id v" by auto
  from update_keeps_other_rows [OF ok v this] UpdateToolVersionStatus show ?thesis by simp
qed

text \<open>
  Claim C8, amended. A version that \<^verbatim>\<open>create_tool_version\<close> creates has the status
  its request carries, and \<^verbatim>\<open>draft\<close> when the request carries none; it reads back so.
  A version in the store reads back unchanged after every write request other than
  \<^verbatim>\<open>update_tool_version_status\<close> for that tool and version.
\<close>

theorem create_tool_version_status:
  assumes ok: "schema_ok db"
  shows "(\<forall>v db'. create_tool_version uid now tool_id payload db = (Inr v, db') \<longrightarrow>
            v_status v = (case p_status payload of None \<Rightarrow> draft | Some st \<Rightarrow> st) \<and>
            get_tool_version tool_id uid db' = Inr v)
       \<and> (\<forall>v\<in>set (tool_versions db). \<forall>rq.
            (\<forall>now' st. rq \<noteq> UpdateToolVersionStatus now' (v_tool_id v) (v_id v) st) \<longrightarrow>
            get_tool_version (v_tool_id v) (v_id v) (handle rq db) = Inr v)"
proof (intro conjI allI impI ballI)
  fix v db'
  assume created: "create_tool_version uid now tool_id payload db = (Inr v, db')"
  then obtain tool where tool:
      "one_or_none (filter (\<lambda>t. t_id t = tool_id) (tools db)) = Inr (Some tool)"
    by (auto simp: create_tool_version_def split: sum.splits option.splits)
  then have tid: "t_id tool = tool_id" by (auto dest: one_or_none_SomeD)
  from created tool have fresh: "uid \<notin> set (map v_id (tool_versions db))"
    by (auto simp: create_tool_version_def add_version_def Let_def split: if_splits)
  from created tool fresh tid have v: "v_id v = uid" "v_tool_id v = tool_id"
      "v_status v = payload_status payload" "tool_versions db' = tool_versions db @ [v]"
    by (auto simp: create_tool_version_def add_version_def Let_def)
  from created have "db' = snd (create_tool_version uid now tool_id payload db)" by simp
  with ok have ok': "schema_ok db'" by (simp add: create_tool_version_keeps_schema)
  from v(4) have "v \<in> set (tool_versions db')" by simp
  from get_tool_version_row [OF ok' this] v(1,2)
  have "get_tool_version tool_id uid db' = Inr v" by simp
  with v(3) show "v_status v = (case p_status payload of None \<Rightarrow> draft | Some st \<Rightarrow> st)"
    and "get_tool_version tool_id uid db' = Inr v"
    by (simp_all add: payload_status_def)
next
  fix v rq
  assume v: "v \<in> set (tool_versions db)"
    and other: "\<forall>now' st. rq \<noteq> UpdateToolVersionStatus now' (v_tool_id v) (v_id v) st"
  from ok have "schema_ok (handle rq db)" by (rule handle_keeps_schema)
  moreover from ok v other have "v \<in> set (tool_versions (handle rq db))" by (rule handle_keeps_row)
  ultimately show "get_tool_version (v_tool_id v) (v_id v) (handle rq db) = Inr v"
    by (rule get_tool_version_row)
qed

text \<open>
  Claim C8 as stated fails: a request whose body says \<^verbatim>\<open>"status": "active"\<close> creates
  an active version.
\<close>

theorem create_tool_version_status_counterexample:
  "p_status demo_payload = Some active \<and>
   map_sum id v_status (fst (create_tool_version ''v9'' 500 ''t1'' demo_payload demo_store)) =
     Inr active \<and>
   active \<noteq> draft"
  by (simp add: create_tool_version_def add_version_def payload_status_def Let_def
        demo_payload_def demo_store_def demo_tool_def demo_version_def)

theorem create_tool_version_status_witness:
  "schema_ok demo_store \<and>
   map_sum id v_status
     (fst (create_tool_version ''v9'' 500 ''t1'' (demo_payload\<lparr>p_status := None\<rparr>) demo_store)) =
     Inr draft \<and>
   get_tool_version ''t1'' ''v1'' (handle (CreateTool ''t2'' 500 demo_create) demo_store) =
     Inr demo_version"
proof -
  note spec = create_tool_version_status [OF demo_store_ok]
  obtain r db' where r: "create_tool_version ''v9'' 500 ''t1'' (demo_payload\<lparr>p_status := None\<rparr>) demo_store = (r, db')"
    by (cases "create_tool_version ''v9'' 500 ''t1'' (demo_payload\<lparr>p_status := None\<rparr>) demo_store")
  have "\<exists>v. r = Inr v"
    using r by (auto simp: create_tool_version_def add_version_def Let_def
        demo_store_def demo_tool_def demo_version_def)
  then obtain v where v: "r = Inr v" ..
  with r spec [of "''v9''" 500 "''t1''" "demo_payload\<lparr>p_status := None\<rparr>"]
  have "v_status v = draft" by (simp add: demo_payload_def)
  with r v have a: "map_sum id v_status
     (fst (create_tool_version ''v9'' 500 ''t1'' (demo_payload\<lparr>p_status := None\<rparr>) demo_store)) =
     Inr draft" by simp
  have m: "demo_version \<in> set (tool_versions demo_store)" "v_tool_id demo_version = ''t1''"
    "v_id demo_version = ''v1''"
    by (simp_all add: demo_store_def demo_version_def)
  have "\<forall>now' st. CreateTool ''t2'' 500 demo_create \<noteq>
      UpdateToolVersionStatus now' (v_tool_id demo_version) (v_id demo_version) st"
    by simp
  with spec m(1) have "get_tool_version (v_tool_id demo_version) (v_id demo_version)
      (handle (CreateTool ''t2'' 500 demo_create) demo_store) = Inr demo_version"
    by blast
  with m(2,3) a demo_store_ok show ?thesis by simp
qed

section \<open>The gateway's call\<close>

lemma dispatch_sent:
  "snd (dispatch w m url inp) =
     (if m = ''GET'' then [HttpGet url inp] else if m = ''POST'' then [HttpPost url inp] else [])"
  by (simp add: dispatch_def split: sum.split)

lemma dispatch_result:
  assumes "snd (dispatch w m url inp) = [rq]"
  shows "fst (dispatch w m url inp) =
     (case endpoint w rq of
        Inl e \<Rightarrow> Inl (GwHTTPException 502 (''Error calling tool endpoint: '' @ e))
      | Inr tool_resp \<Rightarrow> Inr tool_resp)"
  using assms by (auto simp: dispatch_def split: sum.splits if_splits)

lemma call_tool_resolved:
  assumes "resolve_step w req = Inr resolved" "res_version resolved = Some v"
    "v_endpoint_url v = Some u" "u \<noteq> []"
  shows "call_tool w req =
        (case dispatch w (endpoint_method_of w (v_endpoint_method v))
                (target_url (v_endpoint_protocol v) u) (r_input req) of
           (Inl e, sent) \<Rightarrow> (Inl e, sent)
         | (Inr tool_resp, sent) \<Rightarrow>
             (case tool_data tool_resp of
                Inl e \<Rightarrow> (Inl e, sent)
              | Inr data \<Rightarrow>
                  (Inr \<lparr>out_tool = res_tool resolved, out_version = Some v,
                        tool_status_code = status_code tool_resp,
                        result = data\<rparr>, sent)))"
  using assms by (simp add: call_tool_def Let_def)

lemma call_tool_resolved_sent:
  assumes "resolve_step w req = Inr resolved" "res_version resolved = Some v"
    "v_endpoint_url v = Some u" "u \<noteq> []"
  shows "snd (call_tool w req) =
           snd (dispatch w (endpoint_method_of w (v_endpoint_method v))
                  (target_url (v_endpoint_protocol v) u) (r_input req))"
  unfolding call_tool_resolved [OF assms]
  by (cases "dispatch w (endpoint_method_of w (v_endpoint_method v))
                (target_url (v_endpoint_protocol v) u) (r_input req)")
     (auto split: sum.splits)

lemma call_tool_sent:
  assumes "snd (call_tool w req) \<noteq> []"
  obtains resolved v u where "resolve_step w req = Inr resolved" "res_version resolved = Some v"
    "v_endpoint_url v = Some u" "u \<noteq> []"
proof (cases "resolve_step w req")
  case (Inl e)
  with assms show ?thesis by (simp add: call_tool_def)
next
  case (Inr resolved)
  show ?thesis
  proof (cases "res_version resolved")
    case None
    with Inr assms show ?thesis by (simp add: call_tool_def)
  next
    case (Some v)
    show ?thesis
    proof (cases "v_endpoint_url v")
      case None
      with Inr Some assms show ?thesis by (simp add: call_tool_def)
    next
      case (Some u)
      show ?thesis
      proof (cases "u = []")
        case True
        with Inr \<open>res_version resolved = Some v\<close> Some assms show ?thesis
          by (simp add: call_tool_def)
      next
        case False
        with Inr \<open>res_version resolved = Some v\<close> Some that show ?thesis by blast
      qed
    qed
  qed
qed

text \<open>
  What \<^verbatim>\<open>call_tool\<close> does with a response it received, by the three things
  \<^verbatim>\<open>.json()\<close> can do: a decoded body and a \<^verbatim>\<open>ValueError\<close> both end in a returned
  result that carries the response's status code; \<^verbatim>\<open>RecursionError\<close> leaves the
  handler.
\<close>

lemma call_tool_response_outcome:
  assumes sent: "snd (call_tool w req) = [rq]" and got: "endpoint w rq = Inr tool_resp"
  shows "\<exists>resolved. resolve_step w req = Inr resolved \<and>
           fst (call_tool w req) =
             (case json_of tool_resp of
                Json j \<Rightarrow>
                  Inr \<lparr>out_tool = res_tool resolved, out_version = res_version resolved,
                       tool_status_code = status_code tool_resp, result = j\<rparr>
              | RaisesValueError \<Rightarrow>
                  Inr \<lparr>out_tool = res_tool resolved, out_version = res_version resolved,
                       tool_status_code = status_code tool_resp,
                       result = JObj [(''raw'', JStr (body_text tool_resp))]\<rparr>
              | RaisesRecursionError \<Rightarrow> Inl RecursionError)"
proof -
  from sent have "snd (call_tool w req) \<noteq> []" by simp
  then obtain resolved v u where
    r: "resolve_step w req = Inr resolved" "res_version resolved = Some v"
       "v_endpoint_url v = Some u" "u \<noteq> []"
    by (rule call_tool_sent)
  note c = call_tool_resolved [OF r]
  let ?d = "dispatch w (endpoint_method_of w (v_endpoint_method v))
                (target_url (v_endpoint_protocol v) u) (r_input req)"
  from call_tool_resolved_sent [OF r] sent have "snd ?d = [rq]" by simp
  from dispatch_result [OF this] got have "fst ?d = Inr tool_resp" by simp
  with c r show ?thesis
    by (cases ?d) (auto simp: tool_data_def split: decoded.splits)
qed

text \<open>
  Claim C7. \<^verbatim>\<open>call_tool\<close> sends at most one request to the tool's endpoint, and when
  the request it sent fails in transport with cause \<open>e\<close>, it raises the 502 whose detail
  is "Error calling tool endpoint: " followed by \<open>e\<close>.
\<close>

theorem call_tool_transport_failure:
  "length (snd (call_tool w req)) \<le> 1 \<and>
   (\<forall>rq e. snd (call_tool w req) = [rq] \<and> endpoint w rq = Inl e \<longrightarrow>
      fst (call_tool w req) =
        Inl (GwHTTPException 502 (''Error calling tool endpoint: '' @ e)))"
proof (intro conjI allI impI)
  show "length (snd (call_tool w req)) \<le> 1"
  proof (cases "snd (call_tool w req) = []")
    case True
    then show ?thesis by simp
  next
    case False
    then obtain resolved v u where
      r: "resolve_step w req = Inr resolved" "res_version resolved = Some v"
         "v_endpoint_url v = Some u" "u \<noteq> []"
      by (rule call_tool_sent)
    show ?thesis
      unfolding call_tool_resolved_sent [OF r] by (simp add: dispatch_sent)
  qed
next
  fix rq e
  assume a: "snd (call_tool w req) = [rq] \<and> endpoint w rq = Inl e"
  then have "snd (call_tool w req) \<noteq> []" by simp
  then obtain resolved v u where
    r: "resolve_step w req = Inr resolved" "res_version resolved = Some v"
       "v_endpoint_url v = Some u" "u \<noteq> []"
    by (rule call_tool_sent)
  note c = call_tool_resolved [OF r]
  let ?d = "dispatch w (endpoint_method_of w (v_endpoint_method v))
                (target_url (v_endpoint_protocol v) u) (r_input req)"
  from call_tool_resolved_sent [OF r] a have "snd ?d = [rq]" by simp
  from dispatch_result [OF this] a
  have "fst ?d = Inl (GwHTTPException 502 (''Error calling tool endpoint: '' @ e))" by simp
  with c show "fst (call_tool w req) =
      Inl (GwHTTPException 502 (''Error calling tool endpoint: '' @ e))"
    by (cases ?d) auto
qed

lemma upper_POST: "upper w ''POST'' = ''POST''"
  by (simp add: upper_def is_ascii_def upper_char_def)

lemma upper_nonempty: "upper w m = ''GET'' \<or> upper w m = ''POST'' \<Longrightarrow> m \<noteq> []"
  by (auto simp: upper_def is_ascii_def)

text \<open>
  Claim C5, amended. For a resolved version with a non-empty \<^verbatim>\<open>endpoint_url\<close>: an
  \<^verbatim>\<open>endpoint_method\<close> that is unset or empty sends one POST with the caller's input as
  JSON body; a method whose \<^verbatim>\<open>str.upper()\<close> is GET sends one GET with the input as
  query parameters; one whose \<^verbatim>\<open>str.upper()\<close> is POST sends one POST; any other
  method raises the 500 "Unsupported endpoint_method: ..." and nothing is sent. This
  holds whatever \<^verbatim>\<open>str.upper\<close> does to text outside ASCII.
\<close>

theorem call_tool_method_dispatch:
  assumes r: "resolve_step w req = Inr resolved" "res_version resolved = Some v"
    "v_endpoint_url v = Some u" "u \<noteq> []"
  shows "(v_endpoint_method v = None \<or> v_endpoint_method v = Some [] \<longrightarrow>
            snd (call_tool w req) =
              [HttpPost (target_url (v_endpoint_protocol v) u) (r_input req)])
       \<and> (\<forall>m. v_endpoint_method v = Some m \<and> upper w m = ''GET'' \<longrightarrow>
            snd (call_tool w req) =
              [HttpGet (target_url (v_endpoint_protocol v) u) (r_input req)])
       \<and> (\<forall>m. v_endpoint_method v = Some m \<and> upper w m = ''POST'' \<longrightarrow>
            snd (call_tool w req) =
              [HttpPost (target_url (v_endpoint_protocol v) u) (r_input req)])
       \<and> (\<forall>m. v_endpoint_method v = Some m \<and> m \<noteq> [] \<and>
              upper w m \<noteq> ''GET'' \<and> upper w m \<noteq> ''POST'' \<longrightarrow>
            call_tool w req =
              (Inl (GwHTTPException 500 (''Unsupported endpoint_method: '' @ upper w m)), []))"
proof (intro conjI allI impI)
  assume "v_endpoint_method v = None \<or> v_endpoint_method v = Some []"
  then have "endpoint_method_of w (v_endpoint_method v) = ''POST''"
    by (auto simp: endpoint_method_of_def upper_POST)
  then show "snd (call_tool w req) =
      [HttpPost (target_url (v_endpoint_protocol v) u) (r_input req)]"
    by (simp add: call_tool_resolved_sent [OF r] dispatch_sent)
next
  fix m assume m: "v_endpoint_method v = Some m \<and> upper w m = ''GET''"
  with upper_nonempty [of w m] have "endpoint_method_of w (v_endpoint_method v) = ''GET''"
    by (simp add: endpoint_method_of_def)
  then show "snd (call_tool w req) =
      [HttpGet (target_url (v_endpoint_protocol v) u) (r_input req)]"
    by (simp add: call_tool_resolved_sent [OF r] dispatch_sent)
next
  fix m assume m: "v_endpoint_method v = Some m \<and> upper w m = ''POST''"
  with upper_nonempty [of w m] have "endpoint_method_of w (v_endpoint_method v) = ''POST''"
    by (simp add: endpoint_method_of_def)
  then show "snd (call_tool w req) =
      [HttpPost (target_url (v_endpoint_protocol v) u) (r_input req)]"
    by (simp add: call_tool_resolved_sent [OF r] dispatch_sent)
next
  fix m assume m: "v_endpoint_method v = Some m \<and> m \<noteq> [] \<and>
      upper w m \<noteq> ''GET'' \<and> upper w m \<noteq> ''POST''"
  then have "endpoint_method_of w (v_endpoint_method v) = upper w m"
    by (simp add: endpoint_method_of_def)
  with m show "call_tool w req =
      (Inl (GwHTTPException 500 (''Unsupported endpoint_method: '' @ upper w m)), [])"
    by (simp add: call_tool_resolved [OF r] dispatch_def)
qed

section \<open>The gateway on the sample data\<close>

text \<open>The definitions that evaluating a call on the sample data unfolds.\<close>

lemmas demo_eval =
  call_tool_def resolve_step_def demo_world_def demo_version_def demo_req_def demo_tool_def
  endpoint_method_of_def upper_def is_ascii_def upper_char_def target_url_def startswith_def
  dispatch_def tool_data_def Let_def

text \<open>
  Claim C2. The claim asks that every response received ends in a returned result. The
  handler's \<^verbatim>\<open>except ValueError\<close> does not cover it: for the response whose body is a
  thousand opening brackets, \<^verbatim>\<open>.json()\<close> raises \<^verbatim>\<open>RecursionError\<close>, and
  \<^verbatim>\<open>call_tool\<close>, having sent its one request and received the 200, raises instead of
  returning \<^verbatim>\<open>tool_status_code\<close> and a \<^verbatim>\<open>raw\<close> result.
\<close>

theorem call_tool_nested_body_raises:
  "call_tool nested_body_world demo_req =
     (Inl RecursionError, [HttpGet ''http://localhost:9005/weather'' [(''city'', JStr ''Oslo'')]]) \<and>
   map_sum id status_code
     (endpoint nested_body_world
        (HttpGet ''http://localhost:9005/weather'' [(''city'', JStr ''Oslo'')])) = Inr 200 \<and>
   map_sum id json_of
     (endpoint nested_body_world
        (HttpGet ''http://localhost:9005/weather'' [(''city'', JStr ''Oslo'')])) =
     Inr RaisesRecursionError"
  by (simp add: nested_body_world_def demo_eval)

theorem call_tool_transport_failure_witness:
  "snd (call_tool (demo_world (demo_version\<lparr>v_endpoint_method := None\<rparr>)) demo_req) =
     [HttpPost ''http://localhost:9005/weather'' [(''city'', JStr ''Oslo'')]] \<and>
   endpoint (demo_world (demo_version\<lparr>v_endpoint_method := None\<rparr>))
     (HttpPost ''http://localhost:9005/weather'' [(''city'', JStr ''Oslo'')]) =
     Inl ''connection refused'' \<and>
   fst (call_tool (demo_world (demo_version\<lparr>v_endpoint_method := None\<rparr>)) demo_req) =
     Inl (GwHTTPException 502 ''Error calling tool endpoint: connection refused'')"
proof -
  let ?w = "demo_world (demo_version\<lparr>v_endpoint_method := None\<rparr>)"
  have sent: "snd (call_tool ?w demo_req) =
     [HttpPost ''http://localhost:9005/weather'' [(''city'', JStr ''Oslo'')]]"
    by (simp add: demo_eval)
  have got: "endpoint ?w (HttpPost ''http://localhost:9005/weather'' [(''city'', JStr ''Oslo'')]) =
     Inl ''connection refused''"
    by (simp add: demo_world_def)
  from call_tool_transport_failure [of ?w demo_req] sent got
  have "fst (call_tool ?w demo_req) =
     Inl (GwHTTPException 502 (''Error calling tool endpoint: '' @ ''connection refused''))"
    by blast
  with sent got show ?thesis by simp
qed

text \<open>
  Claim C5 as stated fails: the method \<^verbatim>\<open>get\<close> is neither the string GET nor the
  string POST, and the call dispatches a GET and returns.
\<close>

theorem call_tool_method_dispatch_counterexample:
  "v_endpoint_method (demo_version\<lparr>v_endpoint_method := Some ''get''\<rparr>) = Some ''get'' \<and>
   ''get'' \<noteq> ''GET'' \<and> ''get'' \<noteq> ''POST'' \<and>
   call_tool (demo_world (demo_version\<lparr>v_endpoint_method := Some ''get''\<rparr>)) demo_req =
     (Inr \<lparr>out_tool = Some demo_tool,
           out_version = Some (demo_version\<lparr>v_endpoint_method := Some ''get''\<rparr>),
           tool_status_code = 500, result = JObj [(''raw'', JStr ''boom'')]\<rparr>,
      [HttpGet ''http://localhost:9005/weather'' [(''city'', JStr ''Oslo'')]])"
  by (simp add: demo_eval)

theorem call_tool_method_dispatch_witness:
  "snd (call_tool (demo_world (demo_version\<lparr>v_endpoint_method := None\<rparr>)) demo_req) =
     [HttpPost ''http://localhost:9005/weather'' [(''city'', JStr ''Oslo'')]] \<and>
   snd (call_tool (demo_world (demo_version\<lparr>v_endpoint_method := Some ''get''\<rparr>)) demo_req) =
     [HttpGet ''http://localhost:9005/weather'' [(''city'', JStr ''Oslo'')]] \<and>
   call_tool (demo_world (demo_version\<lparr>v_endpoint_method := Some ''Delete''\<rparr>)) demo_req =
     (Inl (GwHTTPException 500 ''Unsupported endpoint_method: DELETE''), [])"
proof -
  have res: "\<And>v. resolve_step (demo_world v) demo_req =
     Inr \<lparr>res_tool = Some demo_tool, res_version = Some v\<rparr>"
    by (simp add: resolve_step_def demo_world_def)
  have url: "\<And>m. v_endpoint_url (demo_version\<lparr>v_endpoint_method := m\<rparr>) =
      Some ''localhost:9005/weather''"
    "\<And>m. v_endpoint_protocol (demo_version\<lparr>v_endpoint_method := m\<rparr>) = ''http''"
    by (simp_all add: demo_version_def)
  have t: "target_url ''http'' ''localhost:9005/weather'' = ''http://localhost:9005/weather''"
    by (simp add: target_url_def startswith_def)
  have inp: "r_input demo_req = [(''city'', JStr ''Oslo'')]" by (simp add: demo_req_def)
  have up: "\<And>w. upper w ''get'' = ''GET''" "\<And>w. upper w ''Delete'' = ''DELETE''"
    by (simp_all add: upper_def is_ascii_def upper_char_def)
  note spec = call_tool_method_dispatch [OF res _ url(1), simplified url t inp]
  from spec [of "demo_version\<lparr>v_endpoint_method := None\<rparr>" None]
  have a: "snd (call_tool (demo_world (demo_version\<lparr>v_endpoint_method := None\<rparr>)) demo_req) =
     [HttpPost ''http://localhost:9005/weather'' [(''city'', JStr ''Oslo'')]]"
    by simp
  from spec [of "demo_version\<lparr>v_endpoint_method := Some ''get''\<rparr>" "Some ''get''"] up
  have b: "snd (call_tool (demo_world (demo_version\<lparr>v_endpoint_method := Some ''get''\<rparr>)) demo_req) =
     [HttpGet ''http://localhost:9005/weather'' [(''city'', JStr ''Oslo'')]]"
    by simp
  from spec [of "demo_version\<lparr>v_endpoint_method := Some ''Delete''\<rparr>" "Some ''Delete''"] up
  have c: "call_tool (demo_world (demo_version\<lparr>v_endpoint_method := Some ''Delete''\<rparr>)) demo_req =
     (Inl (GwHTTPException 500 ''Unsupported endpoint_method: DELETE''), [])"
    by simp
  from a b c show ?thesis by simp
qed

text \<open>
  A method outside ASCII goes through \<open>unicode_upper\<close>: in a world where, as in Python,
  \<^verbatim>\<open>po\<close>, the long s (bytes C5 BF) and \<^verbatim>\<open>t\<close> upper-case to POST, that method
  sends a POST.
\<close>

lemma call_tool_long_s_example:
  "snd (call_tool
          ((demo_world (demo_version\<lparr>v_endpoint_method :=
                                        Some (''po'' @ [CHR 0xC5, CHR 0xBF] @ ''t'')\<rparr>))
             \<lparr>unicode_upper := (\<lambda>s. if s = ''po'' @ [CHR 0xC5, CHR 0xBF] @ ''t''
                                     then ''POST'' else s)\<rparr>)
          demo_req) =
     [HttpPost ''http://localhost:9005/weather'' [(''city'', JStr ''Oslo'')]]"
  by (simp add: demo_eval)

section \<open>The target URL\<close>

lemma startswith_shorter: "startswith s (p @ q) \<Longrightarrow> startswith s p"
proof -
  assume "startswith s (p @ q)"
  then have "take (length p + length q) s = p @ q" by (simp add: startswith_def)
  then have "take (length p) (take (length p + length q) s) = take (length p) (p @ q)"
    by simp
  then show ?thesis by (simp add: startswith_def min_def)
qed

text \<open>
  Claim C6, amended. For a resolved version with a non-empty \<^verbatim>\<open>endpoint_url\<close>, the
  request that \<^verbatim>\<open>call_tool\<close> sends goes to \<^verbatim>\<open>endpoint_url\<close> itself when that
  begins with \<^verbatim>\<open>http://\<close> or \<^verbatim>\<open>https://\<close>, and to \<^verbatim>\<open>endpoint_protocol\<close>,
  \<^verbatim>\<open>://\<close> and \<^verbatim>\<open>endpoint_url\<close> joined when \<^verbatim>\<open>endpoint_url\<close> does not begin
  with \<^verbatim>\<open>http\<close>.
\<close>

theorem call_tool_target_url:
  assumes r: "resolve_step w req = Inr resolved" "res_version resolved = Some v"
    "v_endpoint_url v = Some u" "u \<noteq> []"
    and sent: "snd (call_tool w req) = [rq]"
  shows "(startswith u ''http://'' \<or> startswith u ''https://'' \<longrightarrow> outbound_url rq = u)
       \<and> (\<not> startswith u ''http'' \<longrightarrow> outbound_url rq = v_endpoint_protocol v @ ''://'' @ u)"
proof -
  let ?d = "dispatch w (endpoint_method_of w (v_endpoint_method v))
                (target_url (v_endpoint_protocol v) u) (r_input req)"
  from call_tool_resolved_sent [OF r] sent have "snd ?d = [rq]" by simp
  then have url: "outbound_url rq = target_url (v_endpoint_protocol v) u"
    by (auto simp: dispatch_sent split: if_splits)
  have "startswith u ''http''" if "startswith u ''http://''"
    using that startswith_shorter [of u "''http''" "''://''"] by simp
  moreover have "startswith u ''http''" if "startswith u ''https://''"
    using that startswith_shorter [of u "''http''" "''s://''"] by simp
  ultimately have "startswith u ''http''"
    if "startswith u ''http://'' \<or> startswith u ''https://''"
    using that by blast
  with url show ?thesis by (auto simp: target_url_def)
qed

text \<open>
  Claim C6 as stated fails in both directions: \<^verbatim>\<open>httpbin.org/get\<close> carries no scheme
  and nothing is prepended to it; \<^verbatim>\<open>ftp://files.example/x\<close> carries one and the
  protocol is prepended all the same.
\<close>

theorem call_tool_target_url_counterexample:
  "\<not> carries_scheme_prefix ''httpbin.org/get'' \<and>
   snd (call_tool (demo_world (demo_version\<lparr>v_endpoint_protocol := ''https'',
                                            v_endpoint_url := Some ''httpbin.org/get''\<rparr>))
          demo_req) =
     [HttpGet ''httpbin.org/get'' [(''city'', JStr ''Oslo'')]] \<and>
   ''httpbin.org/get'' \<noteq> ''https://httpbin.org/get'' \<and>
   carries_scheme_prefix ''ftp://files.example/x'' \<and>
   snd (call_tool (demo_world (demo_version\<lparr>v_endpoint_url := Some ''ftp://files.example/x''\<rparr>))
          demo_req) =
     [HttpGet ''http://ftp://files.example/x'' [(''city'', JStr ''Oslo'')]] \<and>
   ''http://ftp://files.example/x'' \<noteq> ''ftp://files.example/x''"
  by (simp add: demo_eval carries_scheme_prefix_def scheme_char_def)

theorem call_tool_target_url_witness:
  "outbound_url (HttpGet ''http://localhost:9005/weather'' [(''city'', JStr ''Oslo'')]) =
     ''http://localhost:9005/weather'' \<and>
   snd (call_tool (demo_world demo_version) demo_req) =
     [HttpGet ''http://localhost:9005/weather'' [(''city'', JStr ''Oslo'')]] \<and>
   snd (call_tool (demo_world (demo_version\<lparr>v_endpoint_url := Some ''https://api.example/w''\<rparr>))
          demo_req) =
     [HttpGet ''https://api.example/w'' [(''city'', JStr ''Oslo'')]]"
proof -
  have res: "\<And>v. resolve_step (demo_world v) demo_req =
     Inr \<lparr>res_tool = Some demo_tool, res_version = Some v\<rparr>"
    by (simp add: resolve_step_def demo_world_def)
  have sent1: "snd (call_tool (demo_world demo_version) demo_req) =
     [HttpGet ''http://localhost:9005/weather'' [(''city'', JStr ''Oslo'')]]"
    by (simp add: demo_eval)
  have u1: "v_endpoint_url demo_version = Some ''localhost:9005/weather''"
    "v_endpoint_protocol demo_version = ''http''"
    by (simp_all add: demo_version_def)
  have "\<not> startswith ''localhost:9005/weather'' ''http''" by (simp add: startswith_def)
  with call_tool_target_url [OF res _ u1(1) _ sent1] u1(2)
  have a: "outbound_url (HttpGet ''http://localhost:9005/weather'' [(''city'', JStr ''Oslo'')]) =
     ''http://localhost:9005/weather''"
    by simp
  have sent2: "snd (call_tool (demo_world (demo_version\<lparr>v_endpoint_url := Some ''https://api.example/w''\<rparr>))
          demo_req) = [HttpGet ''https://api.example/w'' [(''city'', JStr ''Oslo'')]]"
    by (simp add: demo_eval)
  from a sent1 sent2 show ?thesis by simp
qed

end
